theory Spec2Isabelle
  imports Main
begin

section \<open>Python values and JSON documents\<close>

text \<open>
  The script \<^verbatim>\<open>ansible/inventory/terraform_inventory.py\<close> handles the values
  that \<^verbatim>\<open>json.loads\<close> returns and builds one dictionary from them.
  A float is kept as the text that the json encoder writes for it (what
  \<^verbatim>\<open>float.__repr__\<close> gives, or one of \<^verbatim>\<open>NaN\<close>, \<^verbatim>\<open>Infinity\<close>,
  \<^verbatim>\<open>-Infinity\<close>): the script only tests a float for truth and hands it on.
  A dictionary is an association list in insertion order; its keys are values,
  since the script stores a value read from the input as a key.
\<close>

datatype pyval =
    PNone
  | PBool bool
  | PInt int
  | PFloat string
  | PStr string
  | PList "pyval list"
  | PDict "(pyval \<times> pyval) list"

text \<open>
  A JSON document as a syntax tree. The concrete text (white space, escapes,
  the indentation of \<^verbatim>\<open>indent=2\<close>) belongs to the json library and is not
  modelled: a document is identified with its tree. An object keeps its members in
  the order of the text, duplicates included. A number without fraction and exponent
  is an integer; any other number is the float that it denotes, kept as for
  \<^verbatim>\<open>PFloat\<close>.
\<close>

datatype json =
    JNull
  | JBool bool
  | JInt int
  | JFloat string
  | JString string
  | JArray "json list"
  | JObject "(string \<times> json) list"

text \<open>The exceptions that can occur in a run of the script.\<close>

datatype exn =
    CalledProcessError int
  | JSONDecodeError
  | FileNotFoundError
  | TypeError
  | KeyError
  | AttributeError

text \<open>Sequencing of computations that may raise: the first exception wins.\<close>

definition and_then :: "exn + 'a \<Rightarrow> ('a \<Rightarrow> exn + 'b) \<Rightarrow> exn + 'b" where
  "and_then m f = (case m of Inl e \<Rightarrow> Inl e | Inr x \<Rightarrow> f x)"

subsection \<open>Built-in operations of Python that the script uses\<close>

text \<open>Truth value testing (\<^verbatim>\<open>if x:\<close>, \<^verbatim>\<open>not x\<close>).\<close>

fun truthy :: "pyval \<Rightarrow> bool" where
  "truthy PNone = False"
| "truthy (PBool b) = b"
| "truthy (PInt i) = (i \<noteq> 0)"
| "truthy (PFloat f) = (f \<noteq> ''0.0'' \<and> f \<noteq> ''-0.0'')"
| "truthy (PStr s) = (s \<noteq> [])"
| "truthy (PList xs) = (xs \<noteq> [])"
| "truthy (PDict d) = (d \<noteq> [])"

text \<open>Lists and dictionaries cannot be dictionary keys.\<close>

fun hashable :: "pyval \<Rightarrow> bool" where
  "hashable (PList xs) = False"
| "hashable (PDict d) = False"
| "hashable v = True"

text \<open>Lookup in a dictionary: the first entry with the key.\<close>

fun dict_lookup :: "(pyval \<times> pyval) list \<Rightarrow> pyval \<Rightarrow> pyval option" where
  "dict_lookup [] k = None"
| "dict_lookup ((k', v) # d) k = (if k' = k then Some v else dict_lookup d k)"

text \<open>
  \<^verbatim>\<open>d[k] = v\<close> on a dictionary: an existing key keeps its place and takes the
  new value, a new key goes to the end. Keys are compared structurally, which is
  Python's comparison on strings.
\<close>

fun dict_store :: "(pyval \<times> pyval) list \<Rightarrow> pyval \<Rightarrow> pyval \<Rightarrow> (pyval \<times> pyval) list" where
  "dict_store [] k v = [(k, v)]"
| "dict_store ((k', v') # d) k v =
     (if k' = k then (k', v) # d else (k', v') # dict_store d k v)"

definition setitem :: "(pyval \<times> pyval) list \<Rightarrow> pyval \<Rightarrow> pyval \<Rightarrow> exn + (pyval \<times> pyval) list" where
  "setitem d k v = (if hashable k then Inr (dict_store d k v) else Inl TypeError)"

text \<open>Substring test, for \<^verbatim>\<open>in\<close> on a string.\<close>

fun starts_with :: "string \<Rightarrow> string \<Rightarrow> bool" where
  "starts_with s [] = True"
| "starts_with [] (c # p) = False"
| "starts_with (a # s) (c # p) = (a = c \<and> starts_with s p)"

fun substring :: "string \<Rightarrow> string \<Rightarrow> bool" where
  "substring p [] = (p = [])"
| "substring p (a # s) = (starts_with (a # s) p \<or> substring p s)"

text \<open>
  \<^verbatim>\<open>key in obj\<close> for a string key: a key test on a dictionary, a membership
  test on a list, a substring test on a string, and a TypeError on anything else.
\<close>

fun contains :: "pyval \<Rightarrow> string \<Rightarrow> exn + bool" where
  "contains (PDict d) key = Inr (dict_lookup d (PStr key) \<noteq> None)"
| "contains (PList xs) key = Inr (List.member xs (PStr key))"
| "contains (PStr s) key = Inr (substring key s)"
| "contains v key = Inl TypeError"

text \<open>
  \<^verbatim>\<open>obj[key]\<close> for a string key: a missing key of a dictionary is a KeyError,
  and no other value can be indexed by a string.
\<close>

fun getitem :: "pyval \<Rightarrow> string \<Rightarrow> exn + pyval" where
  "getitem (PDict d) key =
     (case dict_lookup d (PStr key) of None \<Rightarrow> Inl KeyError | Some v \<Rightarrow> Inr v)"
| "getitem v key = Inl TypeError"

text \<open>\<^verbatim>\<open>obj.get(key, default)\<close>: only a dictionary has the method.\<close>

definition dict_get :: "(pyval \<times> pyval) list \<Rightarrow> string \<Rightarrow> pyval \<Rightarrow> pyval" where
  "dict_get d key dflt = (case dict_lookup d (PStr key) of None \<Rightarrow> dflt | Some v \<Rightarrow> v)"

fun get_method :: "pyval \<Rightarrow> string \<Rightarrow> pyval \<Rightarrow> exn + pyval" where
  "get_method (PDict d) key dflt = Inr (dict_get d key dflt)"
| "get_method v key dflt = Inl AttributeError"

subsection \<open>The json library on syntax trees\<close>

text \<open>
  \<^verbatim>\<open>json.loads\<close>: the members of an object are stored one after the other, so
  of two members with the same name the later value stays, at the place of the
  earlier one.
\<close>

fun json_loads :: "json \<Rightarrow> pyval"
  and loads_array :: "json list \<Rightarrow> pyval list"
  and loads_object :: "(string \<times> json) list \<Rightarrow> (pyval \<times> pyval) list \<Rightarrow> (pyval \<times> pyval) list"
where
  "json_loads JNull = PNone"
| "json_loads (JBool b) = PBool b"
| "json_loads (JInt i) = PInt i"
| "json_loads (JFloat f) = PFloat f"
| "json_loads (JString s) = PStr s"
| "json_loads (JArray js) = PList (loads_array js)"
| "json_loads (JObject ms) = PDict (loads_object ms [])"
| "loads_array [] = []"
| "loads_array (j # js) = json_loads j # loads_array js"
| "loads_object [] d = d"
| "loads_object ((k, j) # ms) d = loads_object ms (dict_store d (PStr k) (json_loads j))"

text \<open>Decimal text of an integer, as \<^verbatim>\<open>int.__repr__\<close> writes it.\<close>

definition digit_char :: "nat \<Rightarrow> char" where
  "digit_char d = char_of (48 + d)"

fun nat_repr :: "nat \<Rightarrow> string" where
  "nat_repr n = (if n < 10 then [digit_char n] else nat_repr (n div 10) @ [digit_char (n mod 10)])"

declare nat_repr.simps [simp del]

definition int_repr :: "int \<Rightarrow> string" where
  "int_repr i = (if i < 0 then CHR ''-'' # nat_repr (nat (- i)) else nat_repr (nat i))"

text \<open>
  The json encoder writes a dictionary key that is not a string as a string:
  a float by its text, a Boolean as \<^verbatim>\<open>true\<close> or \<^verbatim>\<open>false\<close>, None as
  \<^verbatim>\<open>null\<close>, an integer in decimal. Any other key is a TypeError.
\<close>

fun key_text :: "pyval \<Rightarrow> exn + string" where
  "key_text (PStr s) = Inr s"
| "key_text (PFloat f) = Inr f"
| "key_text (PBool b) = Inr (if b then ''true'' else ''false'')"
| "key_text PNone = Inr ''null''"
| "key_text (PInt i) = Inr (int_repr i)"
| "key_text v = Inl TypeError"

fun json_dumps :: "pyval \<Rightarrow> exn + json"
  and dumps_list :: "pyval list \<Rightarrow> exn + json list"
  and dumps_dict :: "(pyval \<times> pyval) list \<Rightarrow> exn + (string \<times> json) list"
where
  "json_dumps PNone = Inr JNull"
| "json_dumps (PBool b) = Inr (JBool b)"
| "json_dumps (PInt i) = Inr (JInt i)"
| "json_dumps (PFloat f) = Inr (JFloat f)"
| "json_dumps (PStr s) = Inr (JString s)"
| "json_dumps (PList xs) = and_then (dumps_list xs) (\<lambda>js. Inr (JArray js))"
| "json_dumps (PDict d) = and_then (dumps_dict d) (\<lambda>ms. Inr (JObject ms))"
| "dumps_list [] = Inr []"
| "dumps_list (x # xs) =
     and_then (json_dumps x) (\<lambda>j. and_then (dumps_list xs) (\<lambda>js. Inr (j # js)))"
| "dumps_dict [] = Inr []"
| "dumps_dict ((k, v) # d) =
     and_then (key_text k) (\<lambda>s. and_then (json_dumps v) (\<lambda>j.
       and_then (dumps_dict d) (\<lambda>ms. Inr ((s, j) # ms))))"

text \<open>
  The values that \<^verbatim>\<open>json.loads\<close> returns: every key of a dictionary is a
  string, and no dictionary has a key twice. The script does not compute this; it
  is the invariant of the values that flow from the tool's output into the
  inventory.
\<close>

fun is_str :: "pyval \<Rightarrow> bool" where
  "is_str (PStr s) = True"
| "is_str v = False"


section \<open>The script\<close>

subsection \<open>The external tool\<close>

text \<open>
  What the one call \<^verbatim>\<open>terraform output -json\<close> in \<^verbatim>\<open>../environments/dev\<close>
  can do. Either the process does not start (the binary is not on the search path,
  or the directory does not exist), or it ends with an exit status and its captured
  standard output. The captured text is given by what the JSON grammar makes of it:
  no document at all, or a syntax tree.
\<close>

datatype stdout_text = Malformed | Json_text json

datatype tool_run = Not_started | Exited int stdout_text

text \<open>
  \<^verbatim>\<open>subprocess.run(..., check=True)\<close> returns the captured output of a
  process that ended with status 0 and raises CalledProcessError on any other
  status.
\<close>

fun subprocess_run :: "tool_run \<Rightarrow> exn + stdout_text" where
  "subprocess_run Not_started = Inl FileNotFoundError"
| "subprocess_run (Exited rc out) = (if rc \<noteq> 0 then Inl (CalledProcessError rc) else Inr out)"

fun loads_text :: "stdout_text \<Rightarrow> exn + pyval" where
  "loads_text Malformed = Inl JSONDecodeError"
| "loads_text (Json_text j) = Inr (json_loads j)"

text \<open>The two lines that the script itself writes to standard error.\<close>

datatype stderr_line =
    Error_getting_Terraform_output int
  | Error_parsing_Terraform_JSON

subsection \<open>\<^verbatim>\<open>get_terraform_output\<close>\<close>

text \<open>
  The \<^verbatim>\<open>try\<close> block has two handlers, for CalledProcessError and for
  JSONDecodeError; each writes a line to standard error and returns the empty
  dictionary. Every other exception leaves the function. The result is the returned
  value with the lines written to standard error.
\<close>

definition get_terraform_output :: "tool_run \<Rightarrow> exn + (pyval \<times> stderr_line list)" where
  "get_terraform_output run =
     (case and_then (subprocess_run run) loads_text of
        Inr v \<Rightarrow> Inr (v, [])
      | Inl (CalledProcessError rc) \<Rightarrow> Inr (PDict [], [Error_getting_Terraform_output rc])
      | Inl JSONDecodeError \<Rightarrow> Inr (PDict [], [Error_parsing_Terraform_JSON])
      | Inl e \<Rightarrow> Inl e)"

subsection \<open>\<^verbatim>\<open>generate_inventory\<close>\<close>

text \<open>
  The dictionary literal bound to \<^verbatim>\<open>inventory\<close>, with the two places that
  the function later changes as arguments: the list \<^verbatim>\<open>hosts\<close> and the
  dictionary \<^verbatim>\<open>hostvars\<close>.
\<close>

definition inventory :: "pyval list \<Rightarrow> (pyval \<times> pyval) list \<Rightarrow> pyval" where
  "inventory hosts hostvars =
     PDict [
       (PStr ''webservers'', PDict [
          (PStr ''hosts'', PList hosts),
          (PStr ''vars'', PDict [
             (PStr ''ansible_user'', PStr ''azureuser''),
             (PStr ''ansible_ssh_private_key_file'', PStr ''~/.ssh/terraform-demo/id_rsa''),
             (PStr ''ansible_ssh_common_args'', PStr ''-o StrictHostKeyChecking=no'')])]),
       (PStr ''_meta'', PDict [
          (PStr ''hostvars'', PDict hostvars)])]"

text \<open>
  The value returned with the lines on standard error, or the exception that leaves
  the function. Appending to \<^verbatim>\<open>hosts\<close> comes before the store into
  \<^verbatim>\<open>hostvars\<close>; when the store raises, the changed list is lost with the
  local variable.
\<close>

definition generate_inventory :: "tool_run \<Rightarrow> exn + (pyval \<times> stderr_line list)" where
  "generate_inventory run =
     and_then (get_terraform_output run) (\<lambda>(tf_outputs, err).
       if \<not> truthy tf_outputs then
         Inr (PDict [(PStr ''_meta'', PDict [(PStr ''hostvars'', PDict [])])], err)
       else
         and_then (contains tf_outputs ''vm_connection'') (\<lambda>present.
           if present then
             and_then (getitem tf_outputs ''vm_connection'') (\<lambda>entry.
             and_then (getitem entry ''value'') (\<lambda>vm_conn.
             and_then (get_method vm_conn ''vm_name'' (PStr ''unknown'')) (\<lambda>vm_name.
             and_then (get_method vm_conn ''public_ip'' (PStr [])) (\<lambda>public_ip.
             and_then (get_method vm_conn ''private_ip'' (PStr [])) (\<lambda>private_ip.
               if truthy public_ip then
                 and_then (setitem [] vm_name (PDict [
                     (PStr ''ansible_host'', public_ip),
                     (PStr ''private_ip'', private_ip),
                     (PStr ''vm_name'', vm_name)])) (\<lambda>hostvars.
                   Inr (inventory [vm_name] hostvars, err))
               else Inr (inventory [] [], err))))))
           else Inr (inventory [] [], err)))"

subsection \<open>The main block\<close>

text \<open>
  A run ends with the document printed to standard output and the lines on standard
  error, or with an exception that nothing catches: the interpreter prints a
  traceback, nothing reaches standard output, and the exit status is not 0.
\<close>

datatype process_end = Printed json "stderr_line list" | Traceback exn

definition main :: "tool_run \<Rightarrow> process_end" where
  "main run =
     (case generate_inventory run of
        Inl e \<Rightarrow> Traceback e
      | Inr (result, err) \<Rightarrow>
          (case json_dumps result of Inl e \<Rightarrow> Traceback e | Inr doc \<Rightarrow> Printed doc err))"

section \<open>Properties\<close>

subsection \<open>Sequencing\<close>

lemma and_then_Inl [simp]: "and_then (Inl e) f = Inl e"
  by (simp add: and_then_def)

lemma and_then_Inr [simp]: "and_then (Inr x) f = f x"
  by (simp add: and_then_def)

subsection \<open>The two handled failures\<close>



lemma get_terraform_output_parsed:
  "get_terraform_output (Exited 0 (Json_text j)) = Inr (json_loads j, [])"
  by (simp add: get_terraform_output_def)











subsection \<open>What \<^verbatim>\<open>generate_inventory\<close> returns\<close>

lemma dict_lookup_Some_nonempty: "dict_lookup d k = Some v \<Longrightarrow> d \<noteq> []"
  by (cases d) auto


lemma generate_inventory_connection:
  assumes "json_loads j = PDict d"
    and "dict_lookup d (PStr ''vm_connection'') = Some (PDict entry)"
    and "dict_lookup entry (PStr ''value'') = Some (PDict vm_conn)"
  shows "generate_inventory (Exited 0 (Json_text j)) =
     (if truthy (dict_get vm_conn ''public_ip'' (PStr [])) then
        (if hashable (dict_get vm_conn ''vm_name'' (PStr ''unknown'')) then
           Inr (inventory [dict_get vm_conn ''vm_name'' (PStr ''unknown'')]
                  [(dict_get vm_conn ''vm_name'' (PStr ''unknown''), PDict [
                  (PStr ''ansible_host'', dict_get vm_conn ''public_ip'' (PStr [])),
                  (PStr ''private_ip'', dict_get vm_conn ''private_ip'' (PStr [])),
                  (PStr ''vm_name'', dict_get vm_conn ''vm_name'' (PStr ''unknown''))])], [])
         else Inl TypeError)
      else Inr (inventory [] [], []))"
proof -
  have "d \<noteq> []" using assms(2) by (rule dict_lookup_Some_nonempty)
  then show ?thesis
    using assms by (simp add: generate_inventory_def get_terraform_output_parsed setitem_def)
qed

lemma generate_inventory_cases:
  assumes "generate_inventory run = Inr (result, err)"
  shows "(result = PDict [(PStr ''_meta'', PDict [(PStr ''hostvars'', PDict [])])] \<and>
            (\<exists>v. get_terraform_output run = Inr (v, err) \<and> \<not> truthy v))
       \<or> (result = inventory [] [] \<and> (\<exists>v. get_terraform_output run = Inr (v, err) \<and> truthy v))
       \<or> (\<exists>vm_name host. hashable vm_name \<and> result = inventory [vm_name] [(vm_name, PDict host)]
            \<and> (\<exists>v. get_terraform_output run = Inr (v, err) \<and> truthy v))"
proof (cases "get_terraform_output run")
  case (Inl e)
  with assms show ?thesis by (simp add: generate_inventory_def)
next
  case (Inr p)
  obtain v err' where p: "p = (v, err')" by (cases p)
  show ?thesis
  proof (cases "truthy v")
    case False
    with assms Inr p show ?thesis by (simp add: generate_inventory_def)
  next
    case True
    with assms Inr p show ?thesis
      by (auto simp: generate_inventory_def and_then_def setitem_def split: sum.splits if_splits)
  qed
qed

subsection \<open>A connection with a public address\<close>

text \<open>
  C1, amended. When the output document has a \<^verbatim>\<open>vm_connection\<close> entry whose
  value is a mapping with a \<^verbatim>\<open>public_ip\<close> that tests true (any string but the
  empty one does), and the host name is a value that can be a dictionary key, the
  returned inventory has exactly one host in \<^verbatim>\<open>webservers.hosts\<close>: the
  \<^verbatim>\<open>vm_name\<close> field, or \<^verbatim>\<open>unknown\<close> when the value has no such field; and
  \<^verbatim>\<open>_meta.hostvars\<close> has that name as its one key, with an entry whose
  \<^verbatim>\<open>ansible_host\<close> is the \<^verbatim>\<open>public_ip\<close>. Nothing is written to standard
  error.
\<close>

theorem connection_with_public_ip_gives_one_host:
  assumes "json_loads j = PDict d"
    and "dict_lookup d (PStr ''vm_connection'') = Some (PDict entry)"
    and "dict_lookup entry (PStr ''value'') = Some (PDict vm_conn)"
    and "dict_lookup vm_conn (PStr ''public_ip'') = Some public_ip"
    and "truthy public_ip"
    and "vm_name = dict_get vm_conn ''vm_name'' (PStr ''unknown'')"
    and "hashable vm_name"
  shows "generate_inventory (Exited 0 (Json_text j)) =
           Inr (inventory [vm_name]
                  [(vm_name, PDict [
                      (PStr ''ansible_host'', public_ip),
                      (PStr ''private_ip'', dict_get vm_conn ''private_ip'' (PStr [])),
                      (PStr ''vm_name'', vm_name)])], [])"
proof -
  have "dict_get vm_conn ''public_ip'' (PStr []) = public_ip"
    using assms(4) by (simp add: dict_get_def)
  with assms(5,6,7) show ?thesis
    using generate_inventory_connection [OF assms(1,2,3)] by simp
qed

theorem connection_with_public_ip_gives_one_host_witness:
  "truthy (PStr ''20.1.2.3'') \<and> hashable (PStr ''web-vm'') \<and>
   generate_inventory (Exited 0 (Json_text (JObject [
       (''vm_connection'', JObject [(''sensitive'', JBool False), (''value'', JObject [
           (''vm_name'', JString ''web-vm''),
           (''public_ip'', JString ''20.1.2.3''),
           (''private_ip'', JString ''10.0.1.4'')])])]))) =
     Inr (inventory [PStr ''web-vm'']
            [(PStr ''web-vm'', PDict [
                (PStr ''ansible_host'', PStr ''20.1.2.3''),
                (PStr ''private_ip'', PStr ''10.0.1.4''),
                (PStr ''vm_name'', PStr ''web-vm'')])], [])"
  using connection_with_public_ip_gives_one_host
    [of "JObject [
       (''vm_connection'', JObject [(''sensitive'', JBool False), (''value'', JObject [
           (''vm_name'', JString ''web-vm''),
           (''public_ip'', JString ''20.1.2.3''),
           (''private_ip'', JString ''10.0.1.4'')])])]"
      "[(PStr ''vm_connection'', PDict [(PStr ''sensitive'', PBool False), (PStr ''value'', PDict [
           (PStr ''vm_name'', PStr ''web-vm''),
           (PStr ''public_ip'', PStr ''20.1.2.3''),
           (PStr ''private_ip'', PStr ''10.0.1.4'')])])]"
      "[(PStr ''sensitive'', PBool False), (PStr ''value'', PDict [
           (PStr ''vm_name'', PStr ''web-vm''),
           (PStr ''public_ip'', PStr ''20.1.2.3''),
           (PStr ''private_ip'', PStr ''10.0.1.4'')])]"
      "[(PStr ''vm_name'', PStr ''web-vm''),
           (PStr ''public_ip'', PStr ''20.1.2.3''),
           (PStr ''private_ip'', PStr ''10.0.1.4'')]"
      "PStr ''20.1.2.3''" "PStr ''web-vm''"]
  by (simp add: dict_get_def)

text \<open>
  C1, as stated, fails: a \<^verbatim>\<open>vm_name\<close> that is a list cannot be stored as a
  key of \<^verbatim>\<open>hostvars\<close>. The store raises TypeError after the append, and no
  inventory is returned.
\<close>

theorem list_valued_vm_name_raises:
  "generate_inventory (Exited 0 (Json_text (JObject [
       (''vm_connection'', JObject [(''value'', JObject [
           (''vm_name'', JArray [JString ''web-vm'']),
           (''public_ip'', JString ''20.1.2.3'')])])]))) = Inl TypeError"
  by (simp add: generate_inventory_def get_terraform_output_parsed setitem_def dict_get_def)

subsection \<open>Missing fields\<close>



text \<open>
  C9. When the value of \<^verbatim>\<open>vm_connection\<close> has a \<^verbatim>\<open>public_ip\<close> that tests
  true and no \<^verbatim>\<open>vm_name\<close> key, one host is added under the name
  \<^verbatim>\<open>unknown\<close>, in \<^verbatim>\<open>webservers.hosts\<close> and as the key of
  \<^verbatim>\<open>_meta.hostvars\<close>. When it has no \<^verbatim>\<open>private_ip\<close> key, the host's
  \<^verbatim>\<open>private_ip\<close> variable is the empty string.
\<close>

theorem missing_vm_name_is_unknown:
  assumes "json_loads j = PDict d"
    and "dict_lookup d (PStr ''vm_connection'') = Some (PDict entry)"
    and "dict_lookup entry (PStr ''value'') = Some (PDict vm_conn)"
    and "dict_lookup vm_conn (PStr ''public_ip'') = Some public_ip"
    and "truthy public_ip"
  shows "(dict_lookup vm_conn (PStr ''vm_name'') = None \<longrightarrow>
            generate_inventory (Exited 0 (Json_text j)) =
              Inr (inventory [PStr ''unknown'']
                     [(PStr ''unknown'', PDict [
                         (PStr ''ansible_host'', public_ip),
                         (PStr ''private_ip'', dict_get vm_conn ''private_ip'' (PStr [])),
                         (PStr ''vm_name'', PStr ''unknown'')])], []))
       \<and> (dict_lookup vm_conn (PStr ''private_ip'') = None \<longrightarrow>
            hashable (dict_get vm_conn ''vm_name'' (PStr ''unknown'')) \<longrightarrow>
            generate_inventory (Exited 0 (Json_text j)) =
              Inr (inventory [dict_get vm_conn ''vm_name'' (PStr ''unknown'')]
                     [(dict_get vm_conn ''vm_name'' (PStr ''unknown''), PDict [
                         (PStr ''ansible_host'', public_ip),
                         (PStr ''private_ip'', PStr []),
                         (PStr ''vm_name'', dict_get vm_conn ''vm_name'' (PStr ''unknown''))])], []))"
proof -
  have ip: "dict_get vm_conn ''public_ip'' (PStr []) = public_ip"
    using assms(4) by (simp add: dict_get_def)
  have name: "dict_lookup vm_conn (PStr ''vm_name'') = None \<Longrightarrow>
      dict_get vm_conn ''vm_name'' (PStr ''unknown'') = PStr ''unknown''"
    by (simp add: dict_get_def)
  have priv: "dict_lookup vm_conn (PStr ''private_ip'') = None \<Longrightarrow>
      dict_get vm_conn ''private_ip'' (PStr []) = PStr []"
    by (simp add: dict_get_def)
  show ?thesis
    using generate_inventory_connection [OF assms(1,2,3)] assms(5) ip name priv
    by auto
qed

theorem missing_vm_name_is_unknown_witness:
  "truthy (PStr ''20.1.2.3'') \<and>
   generate_inventory (Exited 0 (Json_text (JObject [
       (''vm_connection'', JObject [(''value'', JObject [
           (''public_ip'', JString ''20.1.2.3'')])])]))) =
     Inr (inventory [PStr ''unknown'']
            [(PStr ''unknown'', PDict [
                (PStr ''ansible_host'', PStr ''20.1.2.3''),
                (PStr ''private_ip'', PStr []),
                (PStr ''vm_name'', PStr ''unknown'')])], [])"
  using missing_vm_name_is_unknown
    [of "JObject [
       (''vm_connection'', JObject [(''value'', JObject [
           (''public_ip'', JString ''20.1.2.3'')])])]"
     "[(PStr ''vm_connection'', PDict [(PStr ''value'', PDict [
           (PStr ''public_ip'', PStr ''20.1.2.3'')])])]"
     "[(PStr ''value'', PDict [(PStr ''public_ip'', PStr ''20.1.2.3'')])]"
     "[(PStr ''public_ip'', PStr ''20.1.2.3'')]"
     "PStr ''20.1.2.3''"]
  by (simp add: dict_get_def)

subsection \<open>Hosts and host variables\<close>

text \<open>
  C8. Every inventory that \<^verbatim>\<open>generate_inventory\<close> returns is either the
  document with \<^verbatim>\<open>_meta\<close> alone, which has no \<^verbatim>\<open>webservers\<close> group and
  an empty \<^verbatim>\<open>hostvars\<close>, or the full document, in which the names in
  \<^verbatim>\<open>webservers.hosts\<close> and the keys of \<^verbatim>\<open>_meta.hostvars\<close> are the same
  set, with at most one entry each.
\<close>

theorem hosts_match_hostvars:
  assumes "generate_inventory run = Inr (result, err)"
  shows "result = PDict [(PStr ''_meta'', PDict [(PStr ''hostvars'', PDict [])])]
       \<or> (\<exists>hosts hostvars. result = inventory hosts hostvars
            \<and> set hosts = fst ` set hostvars \<and> length hosts \<le> 1 \<and> length hostvars \<le> 1)"
  using generate_inventory_cases [OF assms] by (elim disjE conjE exE) force+

theorem hosts_match_hostvars_witness:
  "generate_inventory (Exited 0 (Json_text (JObject [
       (''vm_connection'', JObject [(''value'', JObject [
           (''vm_name'', JString ''web-vm''),
           (''public_ip'', JString ''20.1.2.3'')])])]))) =
     Inr (inventory [PStr ''web-vm'']
            [(PStr ''web-vm'', PDict [
                (PStr ''ansible_host'', PStr ''20.1.2.3''),
                (PStr ''private_ip'', PStr []),
                (PStr ''vm_name'', PStr ''web-vm'')])], [])
   \<and> (inventory [PStr ''web-vm'']
            [(PStr ''web-vm'', PDict [
                (PStr ''ansible_host'', PStr ''20.1.2.3''),
                (PStr ''private_ip'', PStr []),
                (PStr ''vm_name'', PStr ''web-vm'')])] =
          PDict [(PStr ''_meta'', PDict [(PStr ''hostvars'', PDict [])])]
       \<or> (\<exists>hosts hostvars.
             inventory [PStr ''web-vm'']
               [(PStr ''web-vm'', PDict [
                   (PStr ''ansible_host'', PStr ''20.1.2.3''),
                   (PStr ''private_ip'', PStr []),
                   (PStr ''vm_name'', PStr ''web-vm'')])] = inventory hosts hostvars
             \<and> set hosts = fst ` set hostvars \<and> length hosts \<le> 1 \<and> length hostvars \<le> 1))"
proof -
  have run: "generate_inventory (Exited 0 (Json_text (JObject [
       (''vm_connection'', JObject [(''value'', JObject [
           (''vm_name'', JString ''web-vm''),
           (''public_ip'', JString ''20.1.2.3'')])])]))) =
     Inr (inventory [PStr ''web-vm'']
            [(PStr ''web-vm'', PDict [
                (PStr ''ansible_host'', PStr ''20.1.2.3''),
                (PStr ''private_ip'', PStr []),
                (PStr ''vm_name'', PStr ''web-vm'')])], [])"
    by (simp add: generate_inventory_def get_terraform_output_parsed setitem_def dict_get_def)
  from run hosts_match_hostvars [OF run] show ?thesis by (rule conjI)
qed

subsection \<open>The two shapes of the document\<close>






subsection \<open>The shape of the printed document\<close>

lemma main_Printed:
  "main run = Printed doc err \<longleftrightarrow>
   (\<exists>result. generate_inventory run = Inr (result, err) \<and> json_dumps result = Inr doc)"
  by (auto simp: main_def split: sum.splits prod.splits)

lemma dumps_inventory:
  assumes "json_dumps (inventory hosts hostvars) = Inr doc"
  shows "\<exists>hs hv. dumps_list hosts = Inr hs \<and> dumps_dict hostvars = Inr hv \<and>
     doc = JObject [
       (''webservers'', JObject [
          (''hosts'', JArray hs),
          (''vars'', JObject [
             (''ansible_user'', JString ''azureuser''),
             (''ansible_ssh_private_key_file'', JString ''~/.ssh/terraform-demo/id_rsa''),
             (''ansible_ssh_common_args'', JString ''-o StrictHostKeyChecking=no'')])]),
       (''_meta'', JObject [
          (''hostvars'', JObject hv)])]"
  using assms
  by (cases "dumps_list hosts"; cases "dumps_dict hostvars") (auto simp: inventory_def)

text \<open>
  C7. Every document that a run prints has one of two fixed shapes: the object with
  the one member \<^verbatim>\<open>_meta\<close>, whose \<^verbatim>\<open>hostvars\<close> is empty, or the object with
  the members \<^verbatim>\<open>webservers\<close> and \<^verbatim>\<open>_meta\<close>, in this order. When the tool's
  output was obtained and tests true, the printed document has the second shape, and
  the \<^verbatim>\<open>vars\<close> of \<^verbatim>\<open>webservers\<close> are the three fixed connection variables,
  whatever the output holds.
\<close>

theorem emitted_document_shape:
  assumes "main run = Printed doc err"
  shows "(doc = JObject [(''_meta'', JObject [(''hostvars'', JObject [])])]
       \<or> (\<exists>hosts hostvars. doc = JObject [
            (''webservers'', JObject [
               (''hosts'', JArray hosts),
               (''vars'', JObject [
                  (''ansible_user'', JString ''azureuser''),
                  (''ansible_ssh_private_key_file'', JString ''~/.ssh/terraform-demo/id_rsa''),
                  (''ansible_ssh_common_args'', JString ''-o StrictHostKeyChecking=no'')])]),
            (''_meta'', JObject [
               (''hostvars'', JObject hostvars)])]))
     \<and> (\<forall>j. run = Exited 0 (Json_text j) \<and> truthy (json_loads j) \<longrightarrow>
          (\<exists>hosts hostvars. doc = JObject [
            (''webservers'', JObject [
               (''hosts'', JArray hosts),
               (''vars'', JObject [
                  (''ansible_user'', JString ''azureuser''),
                  (''ansible_ssh_private_key_file'', JString ''~/.ssh/terraform-demo/id_rsa''),
                  (''ansible_ssh_common_args'', JString ''-o StrictHostKeyChecking=no'')])]),
            (''_meta'', JObject [
               (''hostvars'', JObject hostvars)])]))"
proof -
  from assms obtain result where gen: "generate_inventory run = Inr (result, err)"
    and dumps: "json_dumps result = Inr doc"
    by (auto simp: main_Printed)
  let ?full = "\<exists>hosts hostvars. doc = JObject [
            (''webservers'', JObject [
               (''hosts'', JArray hosts),
               (''vars'', JObject [
                  (''ansible_user'', JString ''azureuser''),
                  (''ansible_ssh_private_key_file'', JString ''~/.ssh/terraform-demo/id_rsa''),
                  (''ansible_ssh_common_args'', JString ''-o StrictHostKeyChecking=no'')])]),
            (''_meta'', JObject [
               (''hostvars'', JObject hostvars)])]"
  have full_doc: "?full" if "result = inventory hosts hostvars" for hosts hostvars
    using dumps_inventory [of hosts hostvars doc] dumps that by blast
  consider (empty) "result = PDict [(PStr ''_meta'', PDict [(PStr ''hostvars'', PDict [])])]"
      and "\<exists>v. get_terraform_output run = Inr (v, err) \<and> \<not> truthy v"
    | (full) hosts hostvars where "result = inventory hosts hostvars"
    using generate_inventory_cases [OF gen] by blast
  then show ?thesis
  proof cases
    case empty
    from empty(1) dumps have "doc = JObject [(''_meta'', JObject [(''hostvars'', JObject [])])]"
      by simp
    moreover have "\<not> truthy (json_loads j)" if "run = Exited 0 (Json_text j)" for j
      using empty(2) that by (simp add: get_terraform_output_parsed)
    ultimately show ?thesis by blast
  next
    case full
    then have "?full" by (rule full_doc)
    then show ?thesis by blast
  qed
qed

theorem emitted_document_shape_witness:
  "main (Exited 0 (Json_text (JObject [
       (''vm_connection'', JObject [(''value'', JObject [
           (''vm_name'', JString ''web-vm''),
           (''public_ip'', JString ''20.1.2.3'')])])]))) =
     Printed (JObject [
       (''webservers'', JObject [
          (''hosts'', JArray [JString ''web-vm'']),
          (''vars'', JObject [
             (''ansible_user'', JString ''azureuser''),
             (''ansible_ssh_private_key_file'', JString ''~/.ssh/terraform-demo/id_rsa''),
             (''ansible_ssh_common_args'', JString ''-o StrictHostKeyChecking=no'')])]),
       (''_meta'', JObject [
          (''hostvars'', JObject [
             (''web-vm'', JObject [
                (''ansible_host'', JString ''20.1.2.3''),
                (''private_ip'', JString []),
                (''vm_name'', JString ''web-vm'')])])])]) []
 \<and> truthy (json_loads (JObject [
       (''vm_connection'', JObject [(''value'', JObject [
           (''vm_name'', JString ''web-vm''),
           (''public_ip'', JString ''20.1.2.3'')])])]))
 \<and> (\<exists>hosts hostvars.
      JObject [
       (''webservers'', JObject [
          (''hosts'', JArray [JString ''web-vm'']),
          (''vars'', JObject [
             (''ansible_user'', JString ''azureuser''),
             (''ansible_ssh_private_key_file'', JString ''~/.ssh/terraform-demo/id_rsa''),
             (''ansible_ssh_common_args'', JString ''-o StrictHostKeyChecking=no'')])]),
       (''_meta'', JObject [
          (''hostvars'', JObject [
             (''web-vm'', JObject [
                (''ansible_host'', JString ''20.1.2.3''),
                (''private_ip'', JString []),
                (''vm_name'', JString ''web-vm'')])])])] =
      JObject [
            (''webservers'', JObject [
               (''hosts'', JArray hosts),
               (''vars'', JObject [
                  (''ansible_user'', JString ''azureuser''),
                  (''ansible_ssh_private_key_file'', JString ''~/.ssh/terraform-demo/id_rsa''),
                  (''ansible_ssh_common_args'', JString ''-o StrictHostKeyChecking=no'')])]),
            (''_meta'', JObject [
               (''hostvars'', JObject hostvars)])])"
proof -
  have run: "main (Exited 0 (Json_text (JObject [
       (''vm_connection'', JObject [(''value'', JObject [
           (''vm_name'', JString ''web-vm''),
           (''public_ip'', JString ''20.1.2.3'')])])]))) =
     Printed (JObject [
       (''webservers'', JObject [
          (''hosts'', JArray [JString ''web-vm'']),
          (''vars'', JObject [
             (''ansible_user'', JString ''azureuser''),
             (''ansible_ssh_private_key_file'', JString ''~/.ssh/terraform-demo/id_rsa''),
             (''ansible_ssh_common_args'', JString ''-o StrictHostKeyChecking=no'')])]),
       (''_meta'', JObject [
          (''hostvars'', JObject [
             (''web-vm'', JObject [
                (''ansible_host'', JString ''20.1.2.3''),
                (''private_ip'', JString []),
                (''vm_name'', JString ''web-vm'')])])])]) []"
    by (simp add: main_def generate_inventory_def get_terraform_output_parsed setitem_def
          dict_get_def inventory_def)
  have obtained: "truthy (json_loads (JObject [
       (''vm_connection'', JObject [(''value'', JObject [
           (''vm_name'', JString ''web-vm''),
           (''public_ip'', JString ''20.1.2.3'')])])]))"
    by simp
  from emitted_document_shape [OF run] obtained run show ?thesis by blast
qed

subsection \<open>Decoding what was encoded\<close>







lemma is_str_key_text: "is_str k \<Longrightarrow> \<exists>s. k = PStr s \<and> key_text k = Inr s"
  by (cases k) simp_all












end
